theory Spec2Isabelle
  imports Complex_Main "HOL-Library.Sublist"
begin

section \<open>Skygram client: data model\<close>

text \<open>
  The embedded program is the React component \<^verbatim>\<open>App\<close> of \<^verbatim>\<open>src/src/App.tsx\<close>.
  JavaScript strings are modelled as \<^typ>\<open>string\<close>; a character outside ASCII is
  written as the bytes of its UTF-8 encoding, as it stands in the source file.
\<close>

record ProcessingStage =
  stage_id :: string
  stage_name :: string
  stage_icon :: string
  stage_description :: string

record ProcessingResult =
  session_id :: string
  detected_object :: string
  caption :: string
  original_image_url :: string
  generated_image_url :: string
  download_url :: string

text \<open>
  \<^verbatim>\<open>ProcessingResult\<close> is an interface of TypeScript: it is erased when the program is
  compiled, and nothing checks at run time that a value has its shape. The values the
  component holds at run time are therefore modelled as they are: a value of JavaScript
  (\<^verbatim>\<open>undefined\<close>, \<^verbatim>\<open>null\<close>, a boolean, a number, a string, an array, or an object with
  its own properties in the order they were added, each name once).
\<close>

datatype js_value =
    JUndefined
  | JNull
  | JBool bool
  | JNumber rat
  | JString string
  | JArray "js_value list"
  | JObject "(string \<times> js_value) list"

text \<open>The object that has the shape of the interface.\<close>

definition of_ProcessingResult :: "ProcessingResult \<Rightarrow> js_value" where
  "of_ProcessingResult r =
    JObject
      [(''session_id'', JString (session_id r)),
       (''detected_object'', JString (detected_object r)),
       (''caption'', JString (caption r)),
       (''original_image_url'', JString (original_image_url r)),
       (''generated_image_url'', JString (generated_image_url r)),
       (''download_url'', JString (download_url r))]"

text \<open>
  \<^verbatim>\<open>v.k\<close> for a value that is neither \<^verbatim>\<open>undefined\<close> nor \<^verbatim>\<open>null\<close> and a name \<open>k\<close>
  of a data field (the component reads \<^verbatim>\<open>session_id\<close>, \<^verbatim>\<open>detected_object\<close>,
  \<^verbatim>\<open>caption\<close>, \<^verbatim>\<open>generated_image_url\<close> and \<^verbatim>\<open>download_url\<close>, none of which is a
  property of a primitive value, of an array or of a prototype); \<^verbatim>\<open>v?.k\<close>, which is
  \<^verbatim>\<open>undefined\<close> for \<^verbatim>\<open>undefined\<close> and \<^verbatim>\<open>null\<close>; the truth value of a value; an array
  read \<^verbatim>\<open>xs[i]\<close>, which is \<^verbatim>\<open>undefined\<close> outside the array.
\<close>

fun get_property :: "js_value \<Rightarrow> string \<Rightarrow> js_value" where
  "get_property (JObject kvs) k = (case map_of kvs k of None \<Rightarrow> JUndefined | Some v \<Rightarrow> v)"
| "get_property v k = JUndefined"


fun ToBoolean :: "js_value \<Rightarrow> bool" where
  "ToBoolean JUndefined = False"
| "ToBoolean JNull = False"
| "ToBoolean (JBool b) = b"
| "ToBoolean (JNumber q) = (q \<noteq> 0)"
| "ToBoolean (JString s) = (s \<noteq> [])"
| "ToBoolean (JArray xs) = True"
| "ToBoolean (JObject kvs) = True"

definition array_read :: "js_value list \<Rightarrow> int \<Rightarrow> js_value" where
  "array_read xs i = (if 0 \<le> i \<and> nat i < length xs then xs ! nat i else JUndefined)"



text \<open>The icon of a stage is a React node; only the name of its component is kept.\<close>

definition processingStages :: "ProcessingStage list" where
  "processingStages =
    [\<lparr>stage_id = ''upload'', stage_name = ''Uploading Image'', stage_icon = ''Eye'',
       stage_description = ''Sending your cloud photo to server...''\<rparr>,
     \<lparr>stage_id = ''outline'', stage_name = ''AI Analysis'', stage_icon = ''Camera'',
       stage_description = ''Analyzing your cloud pattern...''\<rparr>,
     \<lparr>stage_id = ''classify'', stage_name = ''Recognizing Objects'', stage_icon = ''Sparkles'',
       stage_description = ''Identifying cloud shapes...''\<rparr>,
     \<lparr>stage_id = ''generate'', stage_name = ''Creating Cloud Art'', stage_icon = ''Wand2'',
       stage_description = ''Generating your artwork...''\<rparr>]"

definition funnyCaptions :: "string list" where
  "funnyCaptions =
    [''Nature's got jokes! '' @ [CHR 0xF0, CHR 0x9F, CHR 0x8C, CHR 0xA4, CHR 0xEF, CHR 0xB8, CHR 0x8F],
     ''When clouds have better imagination than humans '' @ [CHR 0xF0, CHR 0x9F, CHR 0xA4, CHR 0xAD],
     ''Sky doodles by Mother Nature '' @ [CHR 0xF0, CHR 0x9F, CHR 0x8E, CHR 0xA8]]"

text \<open>
  \<^verbatim>\<open>const API_BASE_URL = import.meta.env.VITE_API_URL || 'http://localhost:8000'\<close>:
  the build-time variable is a parameter (\<open>None\<close> when it is not defined); an undefined
  or empty value is falsy and gives the default.
\<close>

definition API_BASE_URL :: "string option \<Rightarrow> string" where
  "API_BASE_URL vite_api_url =
    (case vite_api_url of
       None \<Rightarrow> ''http://localhost:8000''
     | Some u \<Rightarrow> if u = [] then ''http://localhost:8000'' else u)"

text \<open>A \<^verbatim>\<open>File\<close> of the browser: its name and its MIME type (\<^verbatim>\<open>file.type\<close>).\<close>

record File =
  file_name :: string
  file_type :: string

text \<open>
  The six \<^verbatim>\<open>useState\<close> cells of the component. \<^verbatim>\<open>result\<close> is declared as
  \<^verbatim>\<open>ProcessingResult | null\<close> and holds whatever \<^verbatim>\<open>setResult\<close> was given.
\<close>

record app_state =
  uploadedImage :: "string option"
  isProcessing :: bool
  currentStage :: nat
  result :: js_value
  isDragging :: bool
  error :: "string option"

definition initial_state :: app_state where
  "initial_state =
    \<lparr>uploadedImage = None, isProcessing = False, currentStage = 0,
     result = JNull, isDragging = False, error = None\<rparr>"

text \<open>
  A value that a \<^verbatim>\<open>catch\<close> clause receives: an \<^verbatim>\<open>Error\<close> object with its
  message, or any other thrown value.
\<close>

datatype thrown = JsError string | NonError

text \<open>
  What the awaited \<^verbatim>\<open>fetch\<close> settled to. The promise is rejected with a thrown value,
  or fulfilled with a response, of which the code reads \<^verbatim>\<open>ok\<close>, \<^verbatim>\<open>status\<close> and the
  promise of \<^verbatim>\<open>json()\<close>: that one is rejected (the body is not JSON) or gives the
  parsed body, any value of JSON (\<^verbatim>\<open>null\<close>, a boolean, a number, a string, an array or
  an object, of any shape). The annotation of
  \<^verbatim>\<open>const data: ProcessingResult = await response.json()\<close> checks nothing. The two
  fields \<^verbatim>\<open>ok\<close> and \<^verbatim>\<open>status\<close> are read separately and are kept independent here.
\<close>

record response =
  ok :: bool
  status :: nat
  json :: "thrown + js_value"

datatype fetch_outcome = Rejected thrown | Fulfilled response

text \<open>
  Everything the handlers obtain from outside the component: the build-time variable,
  the outcome of the file reader (\<open>None\<close>: the read failed and \<^verbatim>\<open>onload\<close> never
  fires), the outcome of the network call and the three draws of \<^verbatim>\<open>Math.random()\<close>
  of the fallback, in the order of the calls. The first draw is only rendered in base
  36, so it is given as that text (\<^verbatim>\<open>Math.random().toString(36)\<close>); the other two are
  given as the number drawn. \<open>Number_toString\<close> is the text the language gives to a
  number.
\<close>

record env =
  VITE_API_URL :: "string option"
  reader_result :: "string option"
  fetch_result :: fetch_outcome
  random_text36 :: string
  random_object :: rat
  random_caption :: rat
  Number_toString :: "rat \<Rightarrow> string"

text \<open>
  The calls a handler makes, in program order: the state setters and the effects that
  leave the component.
\<close>

datatype action =
    SetUploadedImage "string option"
  | SetIsProcessing bool
  | SetCurrentStage nat
  | SetResult js_value
  | SetIsDragging bool
  | SetError "string option"
  | Timeout nat
  | Fetch string string File
  | ConsoleError thrown
  | ReadAsDataURL File
  | PreventDefault
  | LinkClick string string
  | ClearFileInput

fun apply_action :: "action \<Rightarrow> app_state \<Rightarrow> app_state" where
  "apply_action (SetUploadedImage v) s = s\<lparr>uploadedImage := v\<rparr>"
| "apply_action (SetIsProcessing v) s = s\<lparr>isProcessing := v\<rparr>"
| "apply_action (SetCurrentStage v) s = s\<lparr>currentStage := v\<rparr>"
| "apply_action (SetResult v) s = s\<lparr>result := v\<rparr>"
| "apply_action (SetIsDragging v) s = s\<lparr>isDragging := v\<rparr>"
| "apply_action (SetError v) s = s\<lparr>error := v\<rparr>"
| "apply_action (Timeout ms) s = s"
| "apply_action (Fetch url method body) s = s"
| "apply_action (ConsoleError e) s = s"
| "apply_action (ReadAsDataURL f) s = s"
| "apply_action PreventDefault s = s"
| "apply_action (LinkClick href download) s = s"
| "apply_action ClearFileInput s = s"

definition run :: "action list \<Rightarrow> app_state \<Rightarrow> app_state" where
  "run acts s = fold apply_action acts s"

section \<open>Numbers\<close>

text \<open>
  The template literal \<^verbatim>\<open>${response.status}\<close> renders an integer status in decimal.
\<close>

definition digit_char :: "nat \<Rightarrow> char" where
  "digit_char d = ''0123456789'' ! d"

function string_of_nat :: "nat \<Rightarrow> string" where
  "string_of_nat n =
    (if n < 10 then [digit_char n] else string_of_nat (n div 10) @ [digit_char (n mod 10)])"
  by pat_completeness auto
termination
  by (relation "measure (\<lambda>n. n)") auto

declare string_of_nat.simps [simp del]

text \<open>
  A JavaScript number is an IEEE 754 double. The numbers of this program are not
  negative and far below \<open>2 ^ 1024\<close>, and such a double is a rational number.
  \<^verbatim>\<open>x * y\<close> is the exact product rounded to the nearest double, a tie going to the
  even significand: \<open>binade k x\<close> searches the exponent of \<open>x\<close> downwards from
  \<open>k - 1022\<close> and stops at \<open>- 1022\<close>, the exponent of the subnormal numbers; a double
  with exponent \<open>e\<close> is a multiple of \<open>2 powi (e - 52)\<close>.
\<close>

definition round_half_even :: "rat \<Rightarrow> int" where
  "round_half_even q =
    (let f = \<lfloor>q\<rfloor>; d = q - of_int f
     in if d < 1 / 2 then f else if 1 / 2 < d then f + 1 else if even f then f else f + 1)"

fun binade :: "nat \<Rightarrow> rat \<Rightarrow> int" where
  "binade 0 x = - 1022"
| "binade (Suc k) x =
    (if 2 powi (int (Suc k) - 1022) \<le> x then int (Suc k) - 1022 else binade k x)"

definition round_double :: "rat \<Rightarrow> rat" where
  "round_double x =
    (let ulp = 2 powi (binade 2045 x - 52)
     in of_int (round_half_even (x / ulp)) * ulp)"

definition number_mul :: "rat \<Rightarrow> rat \<Rightarrow> rat" where
  "number_mul x y = round_double (x * y)"

definition Math_floor :: "rat \<Rightarrow> int" where
  "Math_floor x = \<lfloor>x\<rfloor>"

text \<open>
  \<^verbatim>\<open>Math.random()\<close> gives a double that is at least 0 and less than 1; the largest
  such double is \<open>1 - 1 / 2 ^ 53\<close>.
\<close>

definition is_random :: "rat \<Rightarrow> bool" where
  "is_random r = (0 \<le> r \<and> r \<le> 1 - 1 / 2 ^ 53)"

section \<open>The handlers\<close>

text \<open>
  \<^verbatim>\<open>for (let i = 0; i < processingStages.length; i++) { setCurrentStage(i); await new
  Promise(resolve => setTimeout(resolve, 1000)); }\<close>
\<close>

function stage_loop :: "nat \<Rightarrow> action list" where
  "stage_loop i =
    (if i < length processingStages
     then SetCurrentStage i # Timeout 1000 # stage_loop (i + 1)
     else [])"
  by pat_completeness auto
termination
  by (relation "measure (\<lambda>i. length processingStages - i)") auto

declare stage_loop.simps [simp del]

text \<open>
  The \<^verbatim>\<open>try\<close> block of \<^verbatim>\<open>processCloudImage\<close>: the calls it makes and the value it
  throws, if any. Each awaited promise is taken as settled, with the outcome the
  environment names.
\<close>

definition processCloudImage_try :: "env \<Rightarrow> File \<Rightarrow> action list \<times> thrown option" where
  "processCloudImage_try e f =
    (let acts =
       stage_loop 0 @ [Fetch (API_BASE_URL (VITE_API_URL e) @ ''/process-cloud'') ''POST'' f]
     in case fetch_result e of
          Rejected err \<Rightarrow> (acts, Some err)
        | Fulfilled resp \<Rightarrow>
            if \<not> ok resp
            then (acts, Some (JsError (''Server responded with '' @ string_of_nat (status resp))))
            else (case json resp of
                    Inl err \<Rightarrow> (acts, Some err)
                  | Inr data \<Rightarrow> (acts @ [SetResult data], None)))"

text \<open>
  The mock data of the \<^verbatim>\<open>catch\<close> block: the object literal, its properties in the
  order of the source.
\<close>

definition mock_result :: "env \<Rightarrow> js_value" where
  "mock_result e =
    JObject
      [(''session_id'', JString (''mock-'' @ drop 2 (random_text36 e))),
       (''detected_object'',
          array_read [JString ''dragon'', JString ''dog'', JString ''castle'']
            (Math_floor (number_mul (random_object e) 3))),
       (''caption'',
          array_read (map JString funnyCaptions)
            (Math_floor (number_mul (random_caption e) (of_nat (length funnyCaptions))))),
       (''original_image_url'', JString ''/mock/original.jpg''),
       (''generated_image_url'', JString ''/mock/generated.jpg''),
       (''download_url'', JString ''/mock/download.jpg'')]"

text \<open>\<^verbatim>\<open>err instanceof Error ? err.message : 'Processing failed'\<close>\<close>

definition error_message :: "thrown \<Rightarrow> string" where
  "error_message err = (case err of JsError message \<Rightarrow> message | NonError \<Rightarrow> ''Processing failed'')"

definition processCloudImage_catch :: "env \<Rightarrow> thrown \<Rightarrow> action list" where
  "processCloudImage_catch e err =
    [ConsoleError err, SetError (Some (error_message err)), SetResult (mock_result e)]"

definition processCloudImage :: "env \<Rightarrow> File \<Rightarrow> action list" where
  "processCloudImage e f =
    [SetIsProcessing True, SetCurrentStage 0, SetError None]
    @ (case processCloudImage_try e f of
         (acts, None) \<Rightarrow> acts
       | (acts, Some err) \<Rightarrow> acts @ processCloudImage_catch e err)
    @ [SetIsProcessing False]"

text \<open>
  \<^verbatim>\<open>handleFileUpload\<close>: a file whose type does not start with \<^verbatim>\<open>image/\<close> is refused;
  any other file is read, and \<^verbatim>\<open>onload\<close> stores the data URL and starts the processing.
\<close>

definition handleFileUpload :: "env \<Rightarrow> File \<Rightarrow> action list" where
  "handleFileUpload e f =
    (if \<not> prefix ''image/'' (file_type f)
     then [SetError (Some ''Please upload an image file'')]
     else ReadAsDataURL f #
       (case reader_result e of
          None \<Rightarrow> []
        | Some url \<Rightarrow> SetUploadedImage (Some url) # processCloudImage e f))"

definition handleDrop :: "env \<Rightarrow> File list \<Rightarrow> action list" where
  "handleDrop e files =
    PreventDefault # SetIsDragging False #
      (if 0 < length files then handleFileUpload e (files ! 0) else [])"

definition handleDragOver :: "action list" where
  "handleDragOver = [PreventDefault, SetIsDragging True]"

definition handleDragLeave :: "action list" where
  "handleDragLeave = [PreventDefault, SetIsDragging False]"

text \<open>\<^verbatim>\<open>e.target.files\<close> of an input element may be \<^verbatim>\<open>null\<close>.\<close>

definition handleFileInput :: "env \<Rightarrow> File list option \<Rightarrow> action list" where
  "handleFileInput e files =
    (case files of
       None \<Rightarrow> []
     | Some fs \<Rightarrow> if 0 < length fs then handleFileUpload e (fs ! 0) else [])"


section \<open>What the component renders\<close>

text \<open>
  The JSX of \<^verbatim>\<open>App\<close> shows a block when its guard is truthy: a string state is
  truthy when it is neither \<^verbatim>\<open>null\<close> nor empty. \<open>render\<close> gives, for each block, what
  its guard lets through; what the block makes of the value is not part of the model.
\<close>

definition truthy :: "string option \<Rightarrow> bool" where
  "truthy v = (case v of None \<Rightarrow> False | Some x \<Rightarrow> x \<noteq> [])"

record view =
  error_display :: "string option"
  upload_area :: bool
  stages_display :: "nat option"
  image_preview :: "string option"
  results_display :: "js_value option"

definition render :: "app_state \<Rightarrow> view" where
  "render s =
    \<lparr>error_display = (if truthy (error s) then error s else None),
     upload_area =
       (\<not> truthy (uploadedImage s) \<and> \<not> isProcessing s \<and> \<not> ToBoolean (result s)),
     stages_display = (if isProcessing s then Some (currentStage s) else None),
     image_preview = (if truthy (uploadedImage s) then uploadedImage s else None),
     results_display = (if ToBoolean (result s) then Some (result s) else None)\<rparr>"



text \<open>The part of a trace that sets the stage, waits for a timer or calls the network.\<close>

fun is_progress :: "action \<Rightarrow> bool" where
  "is_progress (SetCurrentStage i) = True"
| "is_progress (Timeout ms) = True"
| "is_progress (Fetch url method body) = True"
| "is_progress a = False"

definition timeline :: "action list \<Rightarrow> action list" where
  "timeline acts = filter is_progress acts"

text \<open>The calls that reach the server, and the calls that store a result.\<close>

fun is_request :: "action \<Rightarrow> bool" where
  "is_request (Fetch url method body) = True"
| "is_request a = False"

fun is_setResult :: "action \<Rightarrow> bool" where
  "is_setResult (SetResult v) = True"
| "is_setResult a = False"

text \<open>
  A value has the shape of \<^verbatim>\<open>ProcessingResult\<close> when it is an object whose properties
  are the six of the interface and nothing else, each a string.
\<close>

fun is_JString :: "js_value \<Rightarrow> bool" where
  "is_JString (JString s) = True"
| "is_JString v = False"

definition six_string_fields :: "js_value \<Rightarrow> bool" where
  "six_string_fields v =
    (case v of
       JObject kvs \<Rightarrow>
         distinct (map fst kvs)
         \<and> set (map fst kvs) =
             {''session_id'', ''detected_object'', ''caption'', ''original_image_url'',
              ''generated_image_url'', ''download_url''}
         \<and> list_all is_JString (map snd kvs)
     | _ \<Rightarrow> False)"

text \<open>The one network call of the component.\<close>

abbreviation process_cloud :: "env \<Rightarrow> File \<Rightarrow> action" where
  "process_cloud e f \<equiv> Fetch (API_BASE_URL (VITE_API_URL e) @ ''/process-cloud'') ''POST'' f"

section \<open>Sample inputs\<close>

text \<open>
  An image and a text file; a server that answers 500, a network that is down, a call
  rejected with an error whose message is empty, the server of the example scenario of the specification, and two servers that answer 200
  with a body that is not the record: \<^verbatim>\<open>null\<close> and \<^verbatim>\<open>{}\<close>.
\<close>

definition cloud1 :: File where
  "cloud1 = \<lparr>file_name = ''cloud1.jpg'', file_type = ''image/jpeg''\<rparr>"

definition notes_txt :: File where
  "notes_txt = \<lparr>file_name = ''notes.txt'', file_type = ''text/plain''\<rparr>"

text \<open>
  A stand-in for the text of a number, right on the integers; the samples hold no number.
\<close>

definition decimal :: "rat \<Rightarrow> string" where
  "decimal q = (if q < 0 then ''-'' else []) @ string_of_nat (nat \<lfloor>\<bar>q\<bar>\<rfloor>)"

definition server_error :: env where
  "server_error =
    \<lparr>VITE_API_URL = None,
     reader_result = Some ''data:image/jpeg;base64,/9j/4AAQ'',
     fetch_result = Fulfilled \<lparr>ok = False, status = 500, json = Inl (JsError ''Unexpected token'')\<rparr>,
     random_text36 = ''0.4fzyo82mvyr'',
     random_object = 1 / 2,
     random_caption = 3 / 4,
     Number_toString = decimal\<rparr>"

definition offline :: env where
  "offline = server_error\<lparr>fetch_result := Rejected (JsError ''Failed to fetch'')\<rparr>"

definition silent_failure :: env where
  "silent_failure = server_error\<lparr>fetch_result := Rejected (JsError [])\<rparr>"

definition dragon_result :: ProcessingResult where
  "dragon_result =
    \<lparr>session_id = ''7f3c'', detected_object = ''dragon'', caption = funnyCaptions ! 2,
     original_image_url = ''/images/original/7f3c'',
     generated_image_url = ''/images/generated/7f3c.png'',
     download_url = ''/download/7f3c.png''\<rparr>"

definition online :: env where
  "online =
    server_error\<lparr>fetch_result :=
      Fulfilled \<lparr>ok = True, status = 200, json = Inr (of_ProcessingResult dragon_result)\<rparr>\<rparr>"


definition empty_object :: env where
  "empty_object =
    server_error\<lparr>fetch_result := Fulfilled \<lparr>ok = True, status = 200, json = Inr (JObject [])\<rparr>\<rparr>"

section \<open>Rounding\<close>

text \<open>
  The exponent found by \<open>binade\<close>, and the two bounds of the rounding that the index
  computations need.
\<close>

lemma binade_ge: "- 1022 \<le> binade k x"
  by (induction k) auto

lemma binade_upper: "x < 2 powi (int k - 1021) \<Longrightarrow> x < 2 powi (binade k x + 1)"
proof (induction k)
  case 0
  then show ?case by simp
next
  case (Suc k)
  show ?case
  proof (cases "2 powi (int (Suc k) - 1022) \<le> x")
    case True
    with Suc.prems show ?thesis by (simp add: algebra_simps)
  next
    case False
    then have "x < 2 powi (int k - 1021)" by (simp add: algebra_simps)
    with Suc.IH False show ?thesis by simp
  qed
qed

lemma binade_lower: "binade k x = - 1022 \<or> 2 powi (binade k x) \<le> x"
  by (induction k) auto

lemma round_half_even_le: "q < of_int M + 1 / 2 \<Longrightarrow> round_half_even q \<le> M"
proof -
  assume a: "q < of_int M + 1 / 2"
  have "\<lfloor>q\<rfloor> \<le> M" using a by linarith
  then consider "\<lfloor>q\<rfloor> = M" | "\<lfloor>q\<rfloor> + 1 \<le> M" by linarith
  then show ?thesis
  proof cases
    case 1
    with a have "q - of_int \<lfloor>q\<rfloor> < 1 / 2" by simp
    with 1 show ?thesis by (simp add: round_half_even_def Let_def)
  next
    case 2
    then show ?thesis by (simp add: round_half_even_def Let_def)
  qed
qed

lemma round_half_even_nonneg: "0 \<le> q \<Longrightarrow> 0 \<le> round_half_even q"
  by (simp add: round_half_even_def Let_def)


lemma round_double_below_3:
  assumes x0: "0 \<le> x" and x3: "x \<le> 3 - 3 / 2 ^ 53"
  shows "0 \<le> round_double x \<and> round_double x < 3"
proof -
  define e where "e = binade 2045 x"
  define ulp :: rat where "ulp = 2 powi (e - 52)"
  define m where "m = round_half_even (x / ulp)"
  have rd: "round_double x = of_int m * ulp"
    by (simp add: round_double_def Let_def e_def ulp_def m_def)
  have ulp_pos: "0 < ulp" by (simp add: ulp_def)
  have x4: "x < 4" using x3 by simp
  have "x < 2 powi (int 2045 - 1021)"
  proof -
    have "(4::rat) = 2 powi 2" by simp
    also have "\<dots> \<le> 2 powi (int 2045 - 1021)"
      by (rule power_int_increasing) simp_all
    finally show ?thesis using x4 by simp
  qed
  then have up: "x < 2 powi (e + 1)"
    unfolding e_def by (rule binade_upper)
  have e_le: "e \<le> 1"
  proof (rule ccontr)
    assume "\<not> e \<le> 1"
    then have e2: "2 \<le> e" by simp
    then have "e \<noteq> - 1022" by simp
    with binade_lower [of 2045 x] have "2 powi e \<le> x" by (simp add: e_def)
    moreover have "(2::rat) powi 2 \<le> 2 powi e"
      using e2 by (intro power_int_increasing) simp_all
    ultimately show False using x4 by simp
  qed
  have m0: "0 \<le> m"
    unfolding m_def using x0 ulp_pos by (intro round_half_even_nonneg) simp
  have lo: "0 \<le> round_double x"
    using m0 ulp_pos by (simp add: rd)
  have hi: "round_double x < 3"
  proof (cases "e = 1")
    case True
    then have ulp51: "ulp = 1 / 2 ^ 51" by (simp add: ulp_def power_int_minus field_simps)
    define N :: int where "N = 3 * 2 ^ 51 - 1"
    define P :: rat where "P = 2 ^ 51"
    have Nr: "(of_int N :: rat) = 3 * P - 1" by (simp add: N_def P_def)
    have "x * P \<le> (3 - 3 / 2 ^ 53) * P" using x3 by (simp add: P_def)
    also have "\<dots> = 3 * P - 3 / 4" by (simp add: P_def)
    finally have "x / ulp \<le> 3 * P - 3 / 4" by (simp add: ulp51 P_def)
    then have "x / ulp < of_int N + 1 / 2" unfolding Nr by linarith
    then have "m \<le> N" unfolding m_def by (rule round_half_even_le)
    then have "(of_int m :: rat) \<le> of_int N" by (simp only: of_int_le_iff)
    then have "(of_int m :: rat) \<le> 3 * 2 ^ 51 - 1" by (simp only: Nr P_def)
    then show ?thesis by (simp add: rd ulp51 field_simps)
  next
    case False
    with e_le have e0: "e \<le> 0" by simp
    have split: "(2::rat) powi (e + 1) = 2 ^ 53 * ulp"
    proof -
      have "(2::rat) powi (e + 1) = 2 powi (53 + (e - 52))" by (simp add: algebra_simps)
      also have "\<dots> = 2 powi 53 * 2 powi (e - 52)" by (rule power_int_add) simp
      finally show ?thesis by (simp add: ulp_def)
    qed
    define N :: int where "N = 2 ^ 53"
    define P :: rat where "P = 2 ^ 53"
    have Nr: "(of_int N :: rat) = P" by (simp add: N_def P_def)
    have "x < 2 ^ 53 * ulp" using up by (simp only: split)
    then have "x / ulp < P" using ulp_pos by (simp only: pos_divide_less_eq P_def)
    then have "x / ulp < of_int N + 1 / 2" unfolding Nr by linarith
    then have "m \<le> N" unfolding m_def by (rule round_half_even_le)
    then have "(of_int m :: rat) \<le> of_int N" by (simp only: of_int_le_iff)
    then have "(of_int m :: rat) \<le> 2 ^ 53" by (simp only: Nr P_def)
    then have "round_double x \<le> 2 ^ 53 * ulp"
      using ulp_pos by (simp add: rd)
    also have "\<dots> = 2 powi (e + 1)" by (simp add: split)
    also have "\<dots> \<le> 2 powi 1" using e0 by (intro power_int_increasing) simp_all
    finally show ?thesis by simp
  qed
  from lo hi show ?thesis ..
qed

lemma binade_unique:
  "- 1022 \<le> e \<Longrightarrow> e \<le> int k - 1022 \<Longrightarrow> 2 powi e \<le> x \<Longrightarrow> x < 2 powi (e + 1)
   \<Longrightarrow> binade k x = e"
proof (induction k)
  case 0
  then show ?case by simp
next
  case (Suc k)
  show ?case
  proof (cases "2 powi (int (Suc k) - 1022) \<le> x")
    case True
    with Suc.prems(4) have "(2::rat) powi (int (Suc k) - 1022) < 2 powi (e + 1)" by simp
    then have "int (Suc k) - 1022 < e + 1"
      by (metis power_int_increasing not_less one_le_numeral)
    with Suc.prems(2) True show ?thesis by simp
  next
    case False
    with Suc.prems(3) have "e \<noteq> int (Suc k) - 1022" by auto
    with Suc.prems(2) have "e \<le> int k - 1022" by simp
    with Suc.IH Suc.prems False show ?thesis by simp
  qed
qed

text \<open>
  A draw of \<^verbatim>\<open>Math.random()\<close> times 3, rounded as the machine does and floored, is 0, 1
  or 2.
\<close>

lemma random_index_3:
  assumes "is_random r"
  shows "0 \<le> Math_floor (number_mul r 3) \<and> nat (Math_floor (number_mul r 3)) < 3"
proof -
  from assms have "0 \<le> r * 3" and "r * 3 \<le> 3 - 3 / 2 ^ 53"
    by (simp_all add: is_random_def)
  then have b: "0 \<le> round_double (r * 3) \<and> round_double (r * 3) < 3"
    by (rule round_double_below_3)
  then have "\<lfloor>round_double (r * 3)\<rfloor> < 3" by (simp add: floor_less_iff)
  then have "nat \<lfloor>round_double (r * 3)\<rfloor> < 3" by (simp only: nat_less_iff)
  moreover from b have "0 \<le> \<lfloor>round_double (r * 3)\<rfloor>" by simp
  ultimately show ?thesis by (simp only: Math_floor_def number_mul_def)
qed

lemma number_mul_half: "number_mul (1 / 2) 3 = 3 / 2"
proof -
  have "binade 2045 (3 / 2) = 0"
    by (rule binade_unique) simp_all
  then show ?thesis
    by (simp add: number_mul_def round_double_def round_half_even_def Let_def power_int_minus)
qed

lemma number_mul_three_quarters: "number_mul (3 / 4) 3 = 9 / 4"
proof -
  have "binade 2045 (9 / 4) = 1"
    by (rule binade_unique) simp_all
  then show ?thesis
    by (simp add: number_mul_def round_double_def round_half_even_def Let_def power_int_minus)
qed

text \<open>
  The rounding is not idle: the largest double below one third is a draw whose exact
  product with 3 is below 1, and whose machine product is 1.
\<close>

lemma number_mul_rounds_to_one:
  "is_random (6004799503160661 / 2 ^ 54) \<and> 6004799503160661 / 2 ^ 54 * (3::rat) < 1
   \<and> number_mul (6004799503160661 / 2 ^ 54) 3 = 1"
proof -
  have b: "binade 2045 (18014398509481983 / 18014398509481984) = - 1"
    by (rule binade_unique) (simp_all add: power_int_minus)
  have f: "\<lfloor>18014398509481983 / 2 :: rat\<rfloor> = 9007199254740991"
    by (simp add: floor_eq_iff)
  have "number_mul (6004799503160661 / 2 ^ 54) 3 = 1"
    by (simp add: number_mul_def round_double_def round_half_even_def Let_def power_int_minus b f)
  then show ?thesis by (simp add: is_random_def)
qed

section \<open>The trace of a processing run\<close>

lemma length_processingStages: "length processingStages = 4"
  by (simp add: processingStages_def)

lemma length_funnyCaptions: "length funnyCaptions = 3"
  by (simp add: funnyCaptions_def)

lemma string_of_nat_500: "string_of_nat 500 = ''500''"
  by (simp add: string_of_nat.simps digit_char_def)

lemma stage_loop_step:
  "i < 4 \<Longrightarrow> stage_loop i = SetCurrentStage i # Timeout 1000 # stage_loop (Suc i)"
  by (subst stage_loop.simps) (simp add: length_processingStages)

lemma stage_loop_end: "stage_loop (Suc (Suc (Suc (Suc 0)))) = []"
  by (subst stage_loop.simps) (simp add: length_processingStages)

lemma stage_loop_0:
  "stage_loop 0 =
    [SetCurrentStage 0, Timeout 1000, SetCurrentStage 1, Timeout 1000,
     SetCurrentStage 2, Timeout 1000, SetCurrentStage 3, Timeout 1000]"
  by (simp add: stage_loop_step stage_loop_end)

text \<open>The four ways through the \<^verbatim>\<open>try\<close> block.\<close>

lemma try_rejected:
  "fetch_result e = Rejected err \<Longrightarrow>
   processCloudImage_try e f = (stage_loop 0 @ [process_cloud e f], Some err)"
  by (simp add: processCloudImage_try_def)

lemma try_not_ok:
  "fetch_result e = Fulfilled resp \<Longrightarrow> \<not> ok resp \<Longrightarrow>
   processCloudImage_try e f =
     (stage_loop 0 @ [process_cloud e f],
      Some (JsError (''Server responded with '' @ string_of_nat (status resp))))"
  by (simp add: processCloudImage_try_def)

lemma try_json_rejected:
  "fetch_result e = Fulfilled resp \<Longrightarrow> ok resp \<Longrightarrow> json resp = Inl err \<Longrightarrow>
   processCloudImage_try e f = (stage_loop 0 @ [process_cloud e f], Some err)"
  by (simp add: processCloudImage_try_def)

lemma try_success:
  "fetch_result e = Fulfilled resp \<Longrightarrow> ok resp \<Longrightarrow> json resp = Inr data \<Longrightarrow>
   processCloudImage_try e f = (stage_loop 0 @ [process_cloud e f, SetResult data], None)"
  by (simp add: processCloudImage_try_def)

lemma try_cases:
  obtains (success) resp data where
      "fetch_result e = Fulfilled resp" and "ok resp" and "json resp = Inr data"
      and "processCloudImage_try e f = (stage_loop 0 @ [process_cloud e f, SetResult data], None)"
    | (failure) err where
      "processCloudImage_try e f = (stage_loop 0 @ [process_cloud e f], Some err)"
proof (cases "fetch_result e")
  case (Rejected err)
  then show ?thesis using failure try_rejected by blast
next
  case (Fulfilled resp)
  show ?thesis
  proof (cases "ok resp")
    case False
    with Fulfilled show ?thesis using failure try_not_ok by blast
  next
    case True
    show ?thesis
    proof (cases "json resp")
      case (Inl err)
      with Fulfilled True show ?thesis using failure try_json_rejected by blast
    next
      case (Inr data)
      with Fulfilled True show ?thesis using success try_success by blast
    qed
  qed
qed

lemma try_throws:
  assumes "snd (processCloudImage_try e f) = Some err"
  shows "processCloudImage_try e f = (stage_loop 0 @ [process_cloud e f], Some err)"
  using assms by (cases e f rule: try_cases) simp_all




lemma run_failure:
  assumes "processCloudImage_try e f = (stage_loop 0 @ [Fetch u m f], Some err)"
  shows "run (processCloudImage e f) s =
    s\<lparr>isProcessing := False, currentStage := 3,
      result := mock_result e, error := Some (error_message err)\<rparr>"
  using assms
  by (simp add: processCloudImage_def processCloudImage_catch_def run_def stage_loop_0)

lemma run_success:
  assumes "processCloudImage_try e f = (stage_loop 0 @ [Fetch u m f, SetResult data], None)"
  shows "run (processCloudImage e f) s =
    s\<lparr>isProcessing := False, currentStage := 3, result := data, error := None\<rparr>"
  using assms
  by (simp add: processCloudImage_def run_def stage_loop_0)



text \<open>What the blocks of the page show for a stored error and a stored result.\<close>

lemma error_display_update:
  "error_display (render (s\<lparr>isProcessing := p, currentStage := c, result := v, error := Some m\<rparr>))
    = (if m = [] then None else Some m)"
  by (simp add: render_def truthy_def)

lemma results_display_update:
  "results_display (render (s\<lparr>isProcessing := p, currentStage := c, result := v, error := x\<rparr>))
    = (if ToBoolean v then Some v else None)"
  by (simp add: render_def)

text \<open>The fabricated object.\<close>

lemma ToBoolean_mock_result: "ToBoolean (mock_result e)"
  by (simp add: mock_result_def)

lemma mock_result_not_null: "mock_result e \<noteq> JNull"
  by (simp add: mock_result_def)

lemma mock_detected_object:
  assumes "is_random (random_object e)"
  shows "\<exists>d. get_property (mock_result e) ''detected_object'' = JString d
    \<and> d \<in> {''dragon'', ''dog'', ''castle''}"
proof -
  let ?i = "Math_floor (number_mul (random_object e) 3)"
  from random_index_3 [OF assms] have "0 \<le> ?i" and "nat ?i < 3" by simp_all
  then have "nat ?i = 0 \<or> nat ?i = 1 \<or> nat ?i = 2" by linarith
  with \<open>0 \<le> ?i\<close> show ?thesis
    by (auto simp add: mock_result_def array_read_def)
qed

lemma mock_caption:
  assumes "is_random (random_caption e)"
  shows "\<exists>c. get_property (mock_result e) ''caption'' = JString c \<and> c \<in> set funnyCaptions"
proof -
  let ?i = "Math_floor (number_mul (random_caption e) (of_nat (length funnyCaptions)))"
  from random_index_3 [OF assms] have lo: "0 \<le> ?i" and hi: "nat ?i < length funnyCaptions"
    by (simp_all add: length_funnyCaptions)
  then have "get_property (mock_result e) ''caption'' = JString (funnyCaptions ! nat ?i)"
    by (simp add: mock_result_def array_read_def)
  moreover from hi have "funnyCaptions ! nat ?i \<in> set funnyCaptions"
    by (rule nth_mem)
  ultimately show ?thesis by blast
qed

lemma mock_six_string_fields:
  assumes "is_random (random_object e)" and "is_random (random_caption e)"
  shows "six_string_fields (mock_result e)"
proof -
  let ?i = "Math_floor (number_mul (random_object e) 3)"
  let ?j = "Math_floor (number_mul (random_caption e) (of_nat (length funnyCaptions)))"
  from random_index_3 [OF assms(1)] have "0 \<le> ?i" and "nat ?i < 3" by simp_all
  then have i: "is_JString (array_read [JString ''dragon'', JString ''dog'', JString ''castle''] ?i)"
    by (simp add: array_read_def nth_Cons split: nat.splits)
  from random_index_3 [OF assms(2)] have "0 \<le> ?j" and "nat ?j < length funnyCaptions"
    by (simp_all add: length_funnyCaptions)
  then have j: "is_JString (array_read (map JString funnyCaptions) ?j)"
    by (simp add: array_read_def)
  from i j show ?thesis
    by (simp add: six_string_fields_def mock_result_def)
qed

lemma six_string_fields_of_ProcessingResult: "six_string_fields (of_ProcessingResult r)"
  by (simp add: six_string_fields_def of_ProcessingResult_def)

text \<open>The sample inputs, evaluated.\<close>

lemma fetch_online:
  "fetch_result online =
    Fulfilled \<lparr>ok = True, status = 200, json = Inr (of_ProcessingResult dragon_result)\<rparr>"
  by (simp add: online_def)




lemma fetch_empty_object:
  "fetch_result empty_object = Fulfilled \<lparr>ok = True, status = 200, json = Inr (JObject [])\<rparr>"
  by (simp add: empty_object_def)

lemma try_empty_object:
  "processCloudImage_try empty_object cloud1 =
    (stage_loop 0 @ [process_cloud empty_object cloud1, SetResult (JObject [])], None)"
  by (rule try_success [OF fetch_empty_object]) simp_all

lemma try_offline:
  "processCloudImage_try offline cloud1 =
    (stage_loop 0 @ [process_cloud offline cloud1], Some (JsError ''Failed to fetch''))"
  by (rule try_rejected) (simp add: offline_def)

lemma try_server_error:
  "processCloudImage_try server_error cloud1 =
    (stage_loop 0 @ [process_cloud server_error cloud1],
     Some (JsError ''Server responded with 500''))"
proof -
  have "fetch_result server_error =
      Fulfilled \<lparr>ok = False, status = 500, json = Inl (JsError ''Unexpected token'')\<rparr>"
    by (simp add: server_error_def)
  from try_not_ok [OF this] show ?thesis by (simp add: string_of_nat_500)
qed

lemma mock_result_server_error:
  "mock_result server_error =
    of_ProcessingResult
      \<lparr>session_id = ''mock-4fzyo82mvyr'', detected_object = ''dog'', caption = funnyCaptions ! 2,
       original_image_url = ''/mock/original.jpg'', generated_image_url = ''/mock/generated.jpg'',
       download_url = ''/mock/download.jpg''\<rparr>"
proof -
  have "Math_floor (number_mul (1 / 2) 3) = 1"
    by (simp add: number_mul_half Math_floor_def floor_eq_iff)
  moreover have "Math_floor (number_mul (3 / 4) 3) = 2"
    by (simp add: number_mul_three_quarters Math_floor_def floor_eq_iff)
  ultimately show ?thesis
    by (simp add: mock_result_def server_error_def length_funnyCaptions array_read_def
        of_ProcessingResult_def)
qed

lemma mock_result_offline: "mock_result offline = mock_result server_error"
  by (simp add: mock_result_def offline_def)

lemma random_server_error:
  "is_random (random_object server_error)" "is_random (random_caption server_error)"
  by (simp_all add: server_error_def is_random_def)

lemma try_silent_failure:
  "processCloudImage_try silent_failure cloud1 =
    (stage_loop 0 @ [process_cloud silent_failure cloud1], Some (JsError []))"
  by (rule try_rejected) (simp add: silent_failure_def)

section \<open>The claims\<close>

subsection \<open>C1: the fallback of the client\<close>

text \<open>
  C1, as the code has it: when the call to \<^verbatim>\<open>/process-cloud\<close> is rejected or answered
  with a status that is not ok, the run ends with the fabricated object stored as the
  result and let through to the results block, and with \<^verbatim>\<open>isProcessing\<close> false; the
  object has the shape of \<^verbatim>\<open>ProcessingResult\<close> when the draws of \<^verbatim>\<open>Math.random()\<close>
  are doubles of the unit interval. The failure is stored as the error: the message of the rejection, which the error block
  shows unless it is empty, or the text with the status, which the error block shows.
\<close>

theorem fallback_stores_mock_and_error:
  assumes "fetch_result e = Rejected err \<or> (fetch_result e = Fulfilled resp \<and> \<not> ok resp)"
  shows "result (run (processCloudImage e f) s) = mock_result e
    \<and> result (run (processCloudImage e f) s) \<noteq> JNull
    \<and> results_display (render (run (processCloudImage e f) s)) = Some (mock_result e)
    \<and> isProcessing (run (processCloudImage e f) s) = False
    \<and> (is_random (random_object e) \<and> is_random (random_caption e) \<longrightarrow>
         six_string_fields (mock_result e))
    \<and> (fetch_result e = Rejected err \<longrightarrow>
         error (run (processCloudImage e f) s) = Some (error_message err)
         \<and> error_display (render (run (processCloudImage e f) s))
             = (if error_message err = [] then None else Some (error_message err)))
    \<and> (fetch_result e = Fulfilled resp \<and> \<not> ok resp \<longrightarrow>
         error (run (processCloudImage e f) s)
             = Some (''Server responded with '' @ string_of_nat (status resp))
         \<and> error_display (render (run (processCloudImage e f) s))
             = Some (''Server responded with '' @ string_of_nat (status resp)))"
  using assms
proof
  assume r: "fetch_result e = Rejected err"
  note run = run_failure [OF try_rejected [OF r], of f s]
  show ?thesis
    unfolding run error_display_update results_display_update
    by (simp add: r ToBoolean_mock_result mock_six_string_fields mock_result_not_null)
next
  assume "fetch_result e = Fulfilled resp \<and> \<not> ok resp"
  then have r: "fetch_result e = Fulfilled resp" and n: "\<not> ok resp" by simp_all
  note run = run_failure [OF try_not_ok [OF r n], of f s]
  show ?thesis
    unfolding run error_display_update results_display_update
    by (simp add: r n ToBoolean_mock_result error_message_def mock_six_string_fields
        mock_result_not_null)
qed

text \<open>
  The network is down: the mock object is the result and the message of the rejection is
  shown. A rejection with an empty message: the mock object is the result, the error is
  the empty string and the error block is not there.
\<close>

theorem fallback_stores_mock_and_error_witness:
  "fetch_result offline = Rejected (JsError ''Failed to fetch'')
   \<and> result (run (processCloudImage offline cloud1) initial_state) = mock_result offline
   \<and> results_display (render (run (processCloudImage offline cloud1) initial_state))
       = Some (mock_result offline)
   \<and> isProcessing (run (processCloudImage offline cloud1) initial_state) = False
   \<and> six_string_fields (mock_result offline)
   \<and> error (run (processCloudImage offline cloud1) initial_state) = Some ''Failed to fetch''
   \<and> error_display (render (run (processCloudImage offline cloud1) initial_state))
       = Some ''Failed to fetch''
   \<and> fetch_result silent_failure = Rejected (JsError [])
   \<and> result (run (processCloudImage silent_failure cloud1) initial_state)
       = mock_result silent_failure
   \<and> error (run (processCloudImage silent_failure cloud1) initial_state) = Some []
   \<and> error_display (render (run (processCloudImage silent_failure cloud1) initial_state)) = None"
proof -
  have r: "fetch_result offline = Rejected (JsError ''Failed to fetch'')"
    by (simp add: offline_def)
  have q: "fetch_result silent_failure = Rejected (JsError [])"
    by (simp add: silent_failure_def)
  have a: "fetch_result offline = Rejected (JsError ''Failed to fetch'')
      \<or> (fetch_result offline = Fulfilled \<lparr>ok = False, status = 0, json = Inl NonError\<rparr>
          \<and> \<not> ok \<lparr>ok = False, status = 0, json = Inl NonError\<rparr>)"
    using r by simp
  have b: "fetch_result silent_failure = Rejected (JsError [])
      \<or> (fetch_result silent_failure = Fulfilled \<lparr>ok = False, status = 0, json = Inl NonError\<rparr>
          \<and> \<not> ok \<lparr>ok = False, status = 0, json = Inl NonError\<rparr>)"
    using q by simp
  have d: "is_random (random_object offline) \<and> is_random (random_caption offline)"
    by (simp add: offline_def server_error_def is_random_def)
  from fallback_stores_mock_and_error [OF a, of cloud1 initial_state]
    fallback_stores_mock_and_error [OF b, of cloud1 initial_state] d
  show ?thesis
    by (simp add: r q error_message_def)
qed

text \<open>
  C1 as it is written does not hold: after a 500 answer the page shows the fabricated
  result and, in its error block, the failure.
\<close>

theorem fallback_shows_error_message:
  "fetch_result server_error =
     Fulfilled \<lparr>ok = False, status = 500, json = Inl (JsError ''Unexpected token'')\<rparr>
   \<and> result (run (processCloudImage server_error cloud1) initial_state)
       = mock_result server_error
   \<and> error_display (render (run (processCloudImage server_error cloud1) initial_state))
       = Some ''Server responded with 500''"
  unfolding run_failure [OF try_server_error] error_display_update
  by (simp add: server_error_def error_message_def)

subsection \<open>C2: the states of the client\<close>




subsection \<open>C3: the simulated stages come before the request\<close>

text \<open>
  C3: of the calls of a run, those that set the stage, wait for a timer or call the
  network are the initial reset of the stage, then the four stages 0 to 3, each followed
  by a timer of 1000 ms, then the one request to \<^verbatim>\<open>/process-cloud\<close>.
\<close>

theorem stages_then_request:
  "map stage_id processingStages = [''upload'', ''outline'', ''classify'', ''generate'']
   \<and> timeline (processCloudImage e f) =
      [SetCurrentStage 0,
       SetCurrentStage 0, Timeout 1000, SetCurrentStage 1, Timeout 1000,
       SetCurrentStage 2, Timeout 1000, SetCurrentStage 3, Timeout 1000,
       Fetch (API_BASE_URL (VITE_API_URL e) @ ''/process-cloud'') ''POST'' f]"
  by (cases e f rule: try_cases)
    (simp_all add: processCloudImage_def processCloudImage_catch_def timeline_def
      stage_loop_0 processingStages_def)

subsection \<open>C4: a file that is not an image\<close>

text \<open>
  C4: for a file whose type does not start with \<^verbatim>\<open>image/\<close>, the upload handler makes
  one call, the one that sets the error message; the state changes in the error only, no
  request is sent and no result (hence no session) is stored. The same holds when the
  file arrives through a drop or through the file input.
\<close>

theorem non_image_refused:
  assumes "\<not> prefix ''image/'' (file_type f)"
  shows "handleFileUpload e f = [SetError (Some ''Please upload an image file'')]
    \<and> run (handleFileUpload e f) s = s\<lparr>error := Some ''Please upload an image file''\<rparr>
    \<and> filter is_request (handleFileUpload e f) = []
    \<and> filter is_setResult (handleFileUpload e f) = []
    \<and> filter is_request (handleDrop e (f # fs)) = []
    \<and> filter is_request (handleFileInput e (Some (f # fs))) = []"
  using assms by (simp add: handleFileUpload_def run_def handleDrop_def handleFileInput_def)

text \<open>A plain text file, while the server is up.\<close>

theorem non_image_refused_witness:
  "\<not> prefix ''image/'' (file_type notes_txt)
   \<and> handleFileUpload online notes_txt = [SetError (Some ''Please upload an image file'')]
   \<and> run (handleFileUpload online notes_txt) initial_state
       = initial_state\<lparr>error := Some ''Please upload an image file''\<rparr>
   \<and> filter is_request (handleFileUpload online notes_txt) = []
   \<and> filter is_setResult (handleFileUpload online notes_txt) = []"
proof -
  have n: "\<not> prefix ''image/'' (file_type notes_txt)"
    by (simp add: notes_txt_def)
  from non_image_refused [OF n, of online initial_state "[]"] n show ?thesis by blast
qed

subsection \<open>C5: the detected object of the fallback\<close>

text \<open>
  C5: when the \<^verbatim>\<open>try\<close> block throws, so that the fallback runs, and the draw of
  \<^verbatim>\<open>Math.random()\<close> is a double of the unit interval, the stored result is the fabricated
  object and its \<^verbatim>\<open>detected_object\<close> is a string, one of dragon, dog and castle, and
  not empty.
\<close>

theorem fallback_detected_object:
  assumes "snd (processCloudImage_try e f) = Some err" and "is_random (random_object e)"
  shows "result (run (processCloudImage e f) s) = mock_result e
    \<and> (\<exists>d. get_property (result (run (processCloudImage e f) s)) ''detected_object'' = JString d
          \<and> d \<in> {''dragon'', ''dog'', ''castle''}
          \<and> d \<noteq> [])"
proof -
  have r: "result (run (processCloudImage e f) s) = mock_result e"
    by (simp add: run_failure [OF try_throws [OF assms(1)]])
  from mock_detected_object [OF assms(2)] obtain d where
    "get_property (mock_result e) ''detected_object'' = JString d"
    and "d \<in> {''dragon'', ''dog'', ''castle''}"
    by blast
  moreover from this have "d \<noteq> []" by auto
  ultimately show ?thesis unfolding r by blast
qed

text \<open>The server answers 500 and the draw is one half: the object is the dog.\<close>

theorem fallback_detected_object_witness:
  "snd (processCloudImage_try server_error cloud1) = Some (JsError ''Server responded with 500'')
   \<and> is_random (random_object server_error)
   \<and> result (run (processCloudImage server_error cloud1) initial_state)
       = mock_result server_error
   \<and> (\<exists>d. get_property (result (run (processCloudImage server_error cloud1) initial_state))
              ''detected_object'' = JString d
          \<and> d \<in> {''dragon'', ''dog'', ''castle''}
          \<and> d \<noteq> [])
   \<and> get_property (mock_result server_error) ''detected_object'' = JString ''dog''"
proof -
  have t: "snd (processCloudImage_try server_error cloud1)
      = Some (JsError ''Server responded with 500'')"
    by (simp add: try_server_error)
  have d: "get_property (mock_result server_error) ''detected_object'' = JString ''dog''"
    by (simp add: mock_result_server_error of_ProcessingResult_def)
  from fallback_detected_object [OF t random_server_error(1), of initial_state]
    t random_server_error(1) d
  show ?thesis by blast
qed

subsection \<open>C6: the caption of the fallback\<close>

text \<open>
  C6: the pool has three captions; when the fallback runs and the draw of
  \<^verbatim>\<open>Math.random()\<close> is a double of the unit interval, the index computed from the draw is
  in the range of the pool and the caption of the fabricated object, which is the stored
  result, is the caption at that index, an element of \<^verbatim>\<open>funnyCaptions\<close>.
\<close>

theorem fallback_caption_in_pool:
  assumes "snd (processCloudImage_try e f) = Some err" and "is_random (random_caption e)"
  shows "length funnyCaptions = 3
    \<and> 0 \<le> Math_floor (number_mul (random_caption e) (of_nat (length funnyCaptions)))
    \<and> nat (Math_floor (number_mul (random_caption e) (of_nat (length funnyCaptions))))
        < length funnyCaptions
    \<and> (\<exists>c. get_property (mock_result e) ''caption'' = JString c \<and> c \<in> set funnyCaptions)
    \<and> get_property (mock_result e) ''caption''
        = JString (funnyCaptions
            ! nat (Math_floor (number_mul (random_caption e) (of_nat (length funnyCaptions)))))
    \<and> result (run (processCloudImage e f) s) = mock_result e"
proof -
  let ?i = "Math_floor (number_mul (random_caption e) (of_nat (length funnyCaptions)))"
  from random_index_3 [OF assms(2)]
  have lo: "0 \<le> ?i" and hi: "nat ?i < length funnyCaptions"
    by (simp_all add: length_funnyCaptions)
  then have c: "get_property (mock_result e) ''caption'' = JString (funnyCaptions ! nat ?i)"
    by (simp add: mock_result_def array_read_def)
  have r: "result (run (processCloudImage e f) s) = mock_result e"
    by (simp add: run_failure [OF try_throws [OF assms(1)]])
  from lo hi c r mock_caption [OF assms(2)] length_funnyCaptions show ?thesis by blast
qed

text \<open>The network is down and the draw is three quarters: the caption is the third.\<close>

theorem fallback_caption_in_pool_witness:
  "snd (processCloudImage_try offline cloud1) = Some (JsError ''Failed to fetch'')
   \<and> is_random (random_caption offline)
   \<and> nat (Math_floor (number_mul (random_caption offline) (of_nat (length funnyCaptions))))
        < length funnyCaptions
   \<and> (\<exists>c. get_property (mock_result offline) ''caption'' = JString c \<and> c \<in> set funnyCaptions)
   \<and> get_property (mock_result offline) ''caption'' = JString (funnyCaptions ! 2)
   \<and> result (run (processCloudImage offline cloud1) initial_state) = mock_result offline"
proof -
  have t: "snd (processCloudImage_try offline cloud1) = Some (JsError ''Failed to fetch'')"
    by (simp add: try_offline)
  have r: "is_random (random_caption offline)"
    by (simp add: offline_def server_error_def is_random_def)
  have c: "get_property (mock_result offline) ''caption'' = JString (funnyCaptions ! 2)"
    by (simp add: mock_result_offline mock_result_server_error of_ProcessingResult_def)
  from fallback_caption_in_pool [OF t r, of initial_state] t r c show ?thesis by blast
qed

subsection \<open>C7: the stored record\<close>

text \<open>
  C7, as the code has it: the object the client fabricates has the six properties
  \<^verbatim>\<open>session_id\<close>, \<^verbatim>\<open>detected_object\<close>, \<^verbatim>\<open>caption\<close>, \<^verbatim>\<open>original_image_url\<close>,
  \<^verbatim>\<open>generated_image_url\<close> and \<^verbatim>\<open>download_url\<close> and no other, each a string (for
  draws of \<^verbatim>\<open>Math.random()\<close> that are doubles of the unit interval), and it is what
  is stored and let through to the results block when the \<^verbatim>\<open>try\<close> block throws. What
  the server sent is stored as it was parsed, whatever it is, and is let through to the
  results block when it is truthy.
\<close>

theorem fallback_record_six_fields:
  "(is_random (random_object e) \<and> is_random (random_caption e) \<longrightarrow>
      six_string_fields (mock_result e))
   \<and> (snd (processCloudImage_try e f) = Some err \<longrightarrow>
        result (run (processCloudImage e f) s) = mock_result e
        \<and> results_display (render (run (processCloudImage e f) s)) = Some (mock_result e))
   \<and> (fetch_result e = Fulfilled resp \<and> ok resp \<and> json resp = Inr data \<longrightarrow>
        result (run (processCloudImage e f) s) = data
        \<and> results_display (render (run (processCloudImage e f) s))
            = (if ToBoolean data then Some data else None))"
proof -
  let ?s' = "run (processCloudImage e f) s"
  have mock: "is_random (random_object e) \<and> is_random (random_caption e) \<longrightarrow>
      six_string_fields (mock_result e)"
    using mock_six_string_fields by blast
  have thrown: "snd (processCloudImage_try e f) = Some err \<longrightarrow>
      result ?s' = mock_result e \<and> results_display (render ?s') = Some (mock_result e)"
  proof
    assume "snd (processCloudImage_try e f) = Some err"
    note run = run_failure [OF try_throws [OF this], of s]
    show "result ?s' = mock_result e \<and> results_display (render ?s') = Some (mock_result e)"
      unfolding run results_display_update by (simp add: ToBoolean_mock_result)
  qed
  have returned: "fetch_result e = Fulfilled resp \<and> ok resp \<and> json resp = Inr data \<longrightarrow>
      result ?s' = data
      \<and> results_display (render ?s') = (if ToBoolean data then Some data else None)"
  proof
    assume "fetch_result e = Fulfilled resp \<and> ok resp \<and> json resp = Inr data"
    then have t: "processCloudImage_try e f =
        (stage_loop 0 @ [process_cloud e f, SetResult data], None)"
      by (simp add: try_success)
    show "result ?s' = data
        \<and> results_display (render ?s') = (if ToBoolean data then Some data else None)"
      unfolding run_success [OF t] results_display_update by simp
  qed
  from mock thrown returned show ?thesis by blast
qed

text \<open>
  The server answers 500: the fabricated object, with its six strings, is stored. The
  example scenario: the object of the server, which has the six strings, is stored.
\<close>

theorem fallback_record_six_fields_witness:
  "is_random (random_object server_error) \<and> is_random (random_caption server_error)
   \<and> six_string_fields (mock_result server_error)
   \<and> snd (processCloudImage_try server_error cloud1) = Some (JsError ''Server responded with 500'')
   \<and> result (run (processCloudImage server_error cloud1) initial_state)
       = mock_result server_error
   \<and> results_display (render (run (processCloudImage server_error cloud1) initial_state))
       = Some (mock_result server_error)
   \<and> fetch_result online =
       Fulfilled \<lparr>ok = True, status = 200, json = Inr (of_ProcessingResult dragon_result)\<rparr>
   \<and> result (run (processCloudImage online cloud1) initial_state)
       = of_ProcessingResult dragon_result
   \<and> results_display (render (run (processCloudImage online cloud1) initial_state))
       = Some (of_ProcessingResult dragon_result)
   \<and> six_string_fields (of_ProcessingResult dragon_result)"
proof -
  have t: "snd (processCloudImage_try server_error cloud1)
      = Some (JsError ''Server responded with 500'')"
    by (simp add: try_server_error)
  from fallback_record_six_fields [of server_error cloud1 "JsError ''Server responded with 500''"
      initial_state "\<lparr>ok = False, status = 500, json = Inl (JsError ''Unexpected token'')\<rparr>"
      JNull] t random_server_error
  have a: "six_string_fields (mock_result server_error)
     \<and> result (run (processCloudImage server_error cloud1) initial_state)
         = mock_result server_error
     \<and> results_display (render (run (processCloudImage server_error cloud1) initial_state))
         = Some (mock_result server_error)"
    by simp
  from fallback_record_six_fields [of online cloud1 NonError initial_state
      "\<lparr>ok = True, status = 200, json = Inr (of_ProcessingResult dragon_result)\<rparr>"
      "of_ProcessingResult dragon_result"] fetch_online
  have b: "result (run (processCloudImage online cloud1) initial_state)
         = of_ProcessingResult dragon_result
     \<and> results_display (render (run (processCloudImage online cloud1) initial_state))
         = Some (of_ProcessingResult dragon_result)"
    by (simp add: of_ProcessingResult_def)
  from a b t random_server_error fetch_online six_string_fields_of_ProcessingResult
  show ?thesis by blast
qed

text \<open>
  C7 as it is written does not hold: a reply of status 200 whose body is \<^verbatim>\<open>{}\<close> is
  stored and let through to the results block, and it has none of the six fields.
\<close>

theorem unchecked_body_is_stored:
  "fetch_result empty_object = Fulfilled \<lparr>ok = True, status = 200, json = Inr (JObject [])\<rparr>
   \<and> result (run (processCloudImage empty_object cloud1) initial_state) = JObject []
   \<and> results_display (render (run (processCloudImage empty_object cloud1) initial_state))
       = Some (JObject [])
   \<and> \<not> six_string_fields (JObject [])
   \<and> get_property (JObject []) ''detected_object'' = JUndefined"
  unfolding run_success [OF try_empty_object] results_display_update
  by (simp add: fetch_empty_object six_string_fields_def)

subsection \<open>C8: the download\<close>



subsection \<open>C9: the end of a run\<close>

text \<open>
  C9: every run, whatever the network call settles to, starts with the three calls that
  set \<^verbatim>\<open>isProcessing\<close>, reset the stage and clear the error, ends with the call
  \<^verbatim>\<open>setIsProcessing(false)\<close>, and leaves \<^verbatim>\<open>isProcessing\<close> false and the stages hidden.
  The loop of the stages terminates (\<open>stage_loop\<close> is a total function).
\<close>

theorem processCloudImage_resets_isProcessing:
  "isProcessing (run (processCloudImage e f) s) = False
   \<and> stages_display (render (run (processCloudImage e f) s)) = None
   \<and> last (processCloudImage e f) = SetIsProcessing False
   \<and> take 3 (processCloudImage e f) = [SetIsProcessing True, SetCurrentStage 0, SetError None]
   \<and> error (run (take 3 (processCloudImage e f)) s) = None"
  by (cases e f rule: try_cases)
    (simp_all add: processCloudImage_def processCloudImage_catch_def run_def render_def)

subsection \<open>C10: several files, or none\<close>

text \<open>
  C10, as the code has it: of a list of files that is dropped or selected, the first is
  passed to the upload handler and the others play no role. With an empty selection (or
  none) the file input makes no call and leaves the state as it is; with an empty drop no
  upload is attempted, and the state changes in \<^verbatim>\<open>isDragging\<close>, which is set to false.
\<close>

theorem first_file_only:
  "handleDrop e (f # fs) = PreventDefault # SetIsDragging False # handleFileUpload e f
   \<and> handleFileInput e (Some (f # fs)) = handleFileUpload e f
   \<and> handleDrop e [] = [PreventDefault, SetIsDragging False]
   \<and> run (handleDrop e []) s = s\<lparr>isDragging := False\<rparr>
   \<and> handleFileInput e (Some []) = []
   \<and> handleFileInput e None = []
   \<and> run (handleFileInput e (Some [])) s = s
   \<and> run (handleFileInput e None) s = s"
  by (simp add: handleDrop_def handleFileInput_def run_def)

text \<open>
  C10 as it is written does not hold: a drop without files, after the drag has entered
  the area, changes the state.
\<close>

theorem empty_drop_changes_state:
  "isDragging (run handleDragOver initial_state) = True
   \<and> isDragging (run (handleDrop online []) (run handleDragOver initial_state)) = False
   \<and> run (handleDrop online []) (run handleDragOver initial_state)
       \<noteq> run handleDragOver initial_state"
proof -
  have a: "isDragging (run handleDragOver initial_state) = True"
    by (simp add: handleDragOver_def run_def)
  have b: "isDragging (run (handleDrop online []) (run handleDragOver initial_state)) = False"
    by (simp add: handleDrop_def run_def)
  from a b have "run (handleDrop online []) (run handleDragOver initial_state)
      \<noteq> run handleDragOver initial_state"
    by metis
  with a b show ?thesis by blast
qed

end
